theory Spec2Isabelle
  imports Complex_Main
begin

section \<open>Text: \<open>str.lower\<close> and \<open>str.strip\<close>\<close>

text \<open>
  Python strings are modelled as \<open>string\<close>, one \<open>char\<close> per character of ASCII text.
  \<open>lower\<close> maps the letters \<open>A\<close> to \<open>Z\<close> to \<open>a\<close> to \<open>z\<close> and leaves every other
  character alone; \<open>strip\<close> removes leading and trailing whitespace, which for ASCII text is
  tab, line feed, vertical tab, form feed, carriage return, the four separators
  \<open>0x1c\<close> to \<open>0x1f\<close>, and space.
\<close>

definition lower_char :: "char \<Rightarrow> char" where
  "lower_char c =
     (let n = (of_char c :: nat) in if 65 \<le> n \<and> n \<le> 90 then char_of (n + 32) else c)"

definition lower :: "string \<Rightarrow> string" where
  "lower s = map lower_char s"

definition isspace :: "char \<Rightarrow> bool" where
  "isspace c =
     (let n = (of_char c :: nat) in (9 \<le> n \<and> n \<le> 13) \<or> (28 \<le> n \<and> n \<le> 32))"

definition strip :: "string \<Rightarrow> string" where
  "strip s = rev (dropWhile isspace (rev (dropWhile isspace s)))"

definition isdigit :: "char \<Rightarrow> bool" where
  "isdigit c = (let n = (of_char c :: nat) in 48 \<le> n \<and> n \<le> 57)"

section \<open>The lookup tables\<close>

text \<open>
  A table loaded by \<open>pd.read_csv\<close> is a header of column names and a list of rows. The
  columns of both tables hold text, so a cell is a string or the null value \<open>NaN\<close>
  (an empty field of the file). A row shorter than the header is filled with \<open>NaN\<close>.
  A column that has rows but no text in any of them is read as a column of numbers
  (\<open>float64\<close>), not of text.
\<close>

datatype cell = NaN | Str string

record dataframe =
  columns :: "string list"
  rows :: "cell list list"

datatype error = KeyError string | AttributeError | IndexError | ValueError | OverflowError

definition cell_at :: "cell list \<Rightarrow> nat \<Rightarrow> cell" where
  "cell_at r k = (if k < length r then r ! k else NaN)"

fun column_index :: "string \<Rightarrow> string list \<Rightarrow> nat option" where
  "column_index name [] = None"
| "column_index name (c # cs) =
     (if c = name then Some 0 else map_option Suc (column_index name cs))"

text \<open>\<open>df[name]\<close>: the column of that name, or \<open>KeyError\<close>.\<close>

definition getitem :: "dataframe \<Rightarrow> string \<Rightarrow> error + cell list" where
  "getitem df name =
     (case column_index name (columns df) of
        None \<Rightarrow> Inl (KeyError name)
      | Some k \<Rightarrow> Inr (map (\<lambda>r. cell_at r k) (rows df)))"

text \<open>\<open>series.str\<close>: the string accessor exists on a column of text and on a column
  without rows; on a column of numbers, which is what a column with rows but no text is,
  asking for it raises \<open>AttributeError\<close>.\<close>

definition str_accessor :: "cell list \<Rightarrow> error + cell list" where
  "str_accessor series =
     (if series \<noteq> [] \<and> list_all (\<lambda>c. c = NaN) series then Inl AttributeError else Inr series)"

text \<open>\<open>.str.lower()\<close> and \<open>.str.strip()\<close> work cell by cell and leave nulls null.\<close>

fun str_lower :: "cell \<Rightarrow> cell" where
  "str_lower NaN = NaN"
| "str_lower (Str s) = Str (lower s)"

fun str_strip :: "cell \<Rightarrow> cell" where
  "str_strip NaN = NaN"
| "str_strip (Str s) = Str (strip s)"

text \<open>\<open>series == text\<close>: a null cell equals nothing.\<close>

fun cell_eq :: "cell \<Rightarrow> string \<Rightarrow> bool" where
  "cell_eq NaN t = False"
| "cell_eq (Str s) t = (s = t)"

text \<open>\<open>df[keep]\<close>: the rows whose entry in the boolean series is true, in their order.\<close>

definition select_rows :: "dataframe \<Rightarrow> bool list \<Rightarrow> dataframe" where
  "select_rows df keep = df\<lparr>rows := map fst (filter snd (zip (rows df) keep))\<rparr>"

text \<open>\<open>df.empty\<close>: one of the two axes has length 0.\<close>

definition df_empty :: "dataframe \<Rightarrow> bool" where
  "df_empty df = (columns df = [] \<or> rows df = [])"

text \<open>\<open>df.iloc[0, lo:hi]\<close>: the cells of the first row in the columns at positions
  \<open>lo\<close> to \<open>hi - 1\<close>, as far as the table has them.\<close>

definition iloc0 :: "dataframe \<Rightarrow> nat \<Rightarrow> nat \<Rightarrow> error + cell list" where
  "iloc0 df lo hi =
     (case rows df of
        [] \<Rightarrow> Inl IndexError
      | r # _ \<Rightarrow> Inr (map (cell_at r) [lo..<min hi (length (columns df))]))"

definition dropna :: "cell list \<Rightarrow> cell list" where
  "dropna cs = filter (\<lambda>c. c \<noteq> NaN) cs"

definition get_remedies_for_disease :: "string \<Rightarrow> dataframe \<Rightarrow> error + cell list" where
  "get_remedies_for_disease disease remedies_df =
     (case getitem remedies_df ''DISEASE NAME'' of
        Inl e \<Rightarrow> Inl e
      | Inr series \<Rightarrow>
          (case str_accessor series of
             Inl e \<Rightarrow> Inl e
           | Inr names \<Rightarrow>
               let remedies_row =
                     select_rows remedies_df
                       (map (\<lambda>c. cell_eq (str_strip (str_lower c)) (strip (lower disease)))
                          names)
               in if \<not> df_empty remedies_row
                  then (case iloc0 remedies_row 1 7 of
                          Inl e \<Rightarrow> Inl e
                        | Inr slots \<Rightarrow> Inr (dropna slots))
                  else Inr []))"

definition get_otc_for_disease :: "string \<Rightarrow> dataframe \<Rightarrow> error + cell list" where
  "get_otc_for_disease disease otc_df =
     (case getitem otc_df ''Diseases'' of
        Inl e \<Rightarrow> Inl e
      | Inr series \<Rightarrow>
          (case str_accessor series of
             Inl e \<Rightarrow> Inl e
           | Inr names \<Rightarrow>
               let otc_row =
                     select_rows otc_df
                       (map (\<lambda>c. cell_eq (str_strip (str_lower c)) (strip (lower disease)))
                          names)
               in if \<not> df_empty otc_row
                  then (case iloc0 otc_row 1 5 of
                          Inl e \<Rightarrow> Inl e
                        | Inr slots \<Rightarrow> Inr (dropna slots))
                  else Inr []))"

section \<open>The console\<close>

text \<open>
  The console is the list of lines still to be read (\<open>[]\<close> is end of input) and the trace
  of what the conversation did so far: every prompt, every printed line and every call of a
  collaborator or of a lookup, in the order they happen.
\<close>

datatype label = Text string | Number int

datatype coord = PyNone | PyInt int | PyFloat real

datatype event =
    Prompt string
  | Print string
  | Predict string
  | Remedies_lookup string
  | Otc_lookup string
  | Geolocation string
  | Nearby_services coord coord

record console =
  stdin :: "string list"
  trace :: "event list"

definition emit :: "event \<Rightarrow> console \<Rightarrow> console" where
  "emit e c = c\<lparr>trace := trace c @ [e]\<rparr>"

definition py_print :: "string \<Rightarrow> console \<Rightarrow> console" where
  "py_print s c = emit (Print s) c"

text \<open>\<open>input(prompt)\<close> writes the prompt and reads one line; at end of input it raises
  \<open>EOFError\<close>, which \<open>safe_input\<close> turns into the default.\<close>

definition safe_input :: "string \<Rightarrow> string \<Rightarrow> console \<Rightarrow> string \<times> console" where
  "safe_input prompt dflt c =
     (case stdin c of
        [] \<Rightarrow> (dflt, emit (Prompt prompt) c)
      | l # ls \<Rightarrow> (strip l, (emit (Prompt prompt) c)\<lparr>stdin := ls\<rparr>))"

section \<open>The conversation\<close>

text \<open>
  What \<open>process_user_input\<close> loads before the first prompt: the classifier (vectorizer and
  model together: one text in, one label out), the truth value numpy gives the one-element
  array holding that label (the test \<open>if matched_symptoms\<close>), the geolocation collaborator,
  and the two tables.
\<close>

record env =
  predict :: "string \<Rightarrow> label"
  label_truth :: "label \<Rightarrow> bool"
  get_geolocation :: "string \<Rightarrow> coord \<times> coord"
  remedies_df :: dataframe
  otc_df :: dataframe

text \<open>\<open>re.fullmatch(r'\d+', user_input)\<close>\<close>

definition fullmatch_digits :: "string \<Rightarrow> bool" where
  "fullmatch_digits s = (s \<noteq> [] \<and> list_all isdigit s)"

text \<open>\<open>[symptom for symptom in matched_symptoms if isinstance(symptom, str)]\<close>\<close>

fun text_labels :: "label list \<Rightarrow> string list" where
  "text_labels [] = []"
| "text_labels (Text s # ls) = s # text_labels ls"
| "text_labels (Number n # ls) = text_labels ls"

text \<open>The truth value of a Python number or \<open>None\<close>.\<close>

fun truthy :: "coord \<Rightarrow> bool" where
  "truthy PyNone = False"
| "truthy (PyInt n) = (n \<noteq> 0)"
| "truthy (PyFloat x) = (x \<noteq> 0)"

fun cell_text :: "cell \<Rightarrow> string" where
  "cell_text NaN = ''nan''"
| "cell_text (Str s) = s"

text \<open>\<open>for item in items: print(f"- {item}")\<close>\<close>

fun print_items :: "cell list \<Rightarrow> console \<Rightarrow> console" where
  "print_items [] c = c"
| "print_items (item # items) c = print_items items (py_print (''- '' @ cell_text item) c)"

text \<open>One pass through the body of the \<open>while True\<close> loop: it either goes round again
  or breaks with the detected symptoms.\<close>

datatype step = Again console | Break "string list" console

definition await_symptom_step :: "env \<Rightarrow> console \<Rightarrow> step" where
  "await_symptom_step env c =
     (case safe_input ''Please tell me your symptoms (e.g., headache, fever, etc.): '' ''fever'' c of
        (user_input, c1) \<Rightarrow>
          if fullmatch_digits user_input
          then Again (py_print ''Invalid input! Please enter valid symptoms (not numbers).'' c1)
          else
            let matched_symptoms = [predict env user_input];
                c2 = emit (Predict user_input) c1
            in if label_truth env (predict env user_input)
               then
                 let detected_symptoms = text_labels matched_symptoms
                 in if detected_symptoms \<noteq> []
                    then Break detected_symptoms c2
                    else Again (py_print ''Invalid input! Please enter recognizable symptoms.'' c2)
               else Again (py_print ''I couldn't recognize those symptoms. Please try again.'' c2))"

partial_function (option) await_symptom :: "env \<Rightarrow> console \<Rightarrow> (string list \<times> console) option" where
  "await_symptom env c =
     (case await_symptom_step env c of
        Again c' \<Rightarrow> await_symptom env c'
      | Break detected_symptoms c' \<Rightarrow> Some (detected_symptoms, c'))"

text \<open>Lines 108 to 114: the location prompt, the geolocation call and the guarded call of
  the nearby-services collaborator. Nothing follows it.\<close>

definition await_location :: "env \<Rightarrow> console \<Rightarrow> console" where
  "await_location env c =
     (case safe_input ''Please provide your address or city for nearby medical services: ''
             ''New York'' c of
        (location, c1) \<Rightarrow>
          (case get_geolocation env location of
             (lat, lng) \<Rightarrow>
               let c2 = emit (Geolocation location) c1
               in if truthy lat \<and> truthy lng
                  then emit (Nearby_services lat lng) c2
                  else py_print ''Sorry, I couldn't find that location. Please try again.'' c2))"

text \<open>Lines 91 to 114: the OTC prompt and its three branches, then the location prompt.\<close>

definition await_otc_choice :: "env \<Rightarrow> string \<Rightarrow> console \<Rightarrow> error + console" where
  "await_otc_choice env disease c =
     (case safe_input ''Do you want to know about OTC medicines for this? (yes/no): '' ''no'' c of
        (answer, c1) \<Rightarrow>
          let otc_choice = lower answer
          in if otc_choice = ''yes''
             then (case get_otc_for_disease disease (otc_df env) of
                     Inl e \<Rightarrow> Inl e
                   | Inr otc_medicines \<Rightarrow>
                       let c2 = emit (Otc_lookup disease) c1
                       in if otc_medicines \<noteq> []
                          then Inr (await_location env
                                 (print_items otc_medicines
                                    (py_print ''Here are some OTC medicines you can try:'' c2)))
                          else Inr (await_location env (py_print ''No OTC medicines found.'' c2)))
             else if otc_choice = ''no''
             then Inr (await_location env (py_print ''No OTC medicines will be displayed.'' c1))
             else Inr (await_location env
                    (py_print ''Invalid input. Please enter 'yes' or 'no'.'' c1)))"

text \<open>Lines 79 to 114: the diagnosis is announced, the remedies are looked up and printed,
  then the OTC prompt.\<close>

definition diagnosed :: "env \<Rightarrow> string \<Rightarrow> console \<Rightarrow> error + console" where
  "diagnosed env disease c =
     (let c1 = py_print (''I think you might have '' @ disease @ ''.'') c
      in case get_remedies_for_disease disease (remedies_df env) of
           Inl e \<Rightarrow> Inl e
         | Inr remedies \<Rightarrow>
             let c2 = emit (Remedies_lookup disease) c1
             in if remedies \<noteq> []
                then await_otc_choice env disease
                       (print_items remedies (py_print ''Here are some home remedies:'' c2))
                else await_otc_choice env disease
                       (py_print ''No home remedies found for this disease.'' c2))"

text \<open>The whole function. \<open>None\<close> is a symptom loop that never ends.\<close>

definition process_user_input :: "env \<Rightarrow> console \<Rightarrow> (error + console) option" where
  "process_user_input env c =
     (case await_symptom env (py_print ''Hello! I am your health assistant.'' c) of
        None \<Rightarrow> None
      | Some (detected_symptoms, c1) \<Rightarrow>
          (case detected_symptoms of
             [] \<Rightarrow> Some (Inl IndexError)
           | disease # _ \<Rightarrow> Some (diagnosed env disease c1)))"

section \<open>The liveness responder\<close>











section \<open>The port\<close>








section \<open>Reading traces\<close>

abbreviation symptom_prompt :: string where
  "symptom_prompt \<equiv> ''Please tell me your symptoms (e.g., headache, fever, etc.): ''"

abbreviation otc_prompt :: string where
  "otc_prompt \<equiv> ''Do you want to know about OTC medicines for this? (yes/no): ''"

abbreviation location_prompt :: string where
  "location_prompt \<equiv> ''Please provide your address or city for nearby medical services: ''"

abbreviation apology :: string where
  "apology \<equiv> ''Sorry, I couldn't find that location. Please try again.''"

text \<open>The console a pass through the loop body leaves behind.\<close>

fun step_console :: "step \<Rightarrow> console" where
  "step_console (Again c) = c"
| "step_console (Break detected_symptoms c) = c"

text \<open>The events of the last part of the conversation: the two collaborator calls.\<close>

fun is_location_event :: "event \<Rightarrow> bool" where
  "is_location_event (Geolocation location) = True"
| "is_location_event (Nearby_services lat lng) = True"
| "is_location_event e = False"

text \<open>The lines \<open>print_items\<close> prints.\<close>

definition item_lines :: "cell list \<Rightarrow> event list" where
  "item_lines items = map (\<lambda>item. Print (''- '' @ cell_text item)) items"




section \<open>Example data\<close>

definition example_remedies :: dataframe where
  "example_remedies =
     \<lparr>columns = [''DISEASE NAME'', ''HOMEREMEDY1'', ''HOMEREMEDY2'', ''HOMEREMEDY3'',
                 ''HOMEREMEDY4'', ''HOMEREMEDY5'', ''HOMEREMEDY6''],
      rows = [[Str ''Fever '', Str ''Drink fluids'', Str ''Rest'', NaN, NaN, NaN, NaN],
              [Str ''Migraine'', Str ''Ginger tea'', NaN, Str ''Cold compress'',
               Str ''Dark room'', NaN, NaN]]\<rparr>"

definition example_otc :: dataframe where
  "example_otc =
     \<lparr>columns = [''Diseases'', ''OTC1'', ''OTC2'', ''OTC3'', ''OTC4''],
      rows = [[Str ''fever'', Str ''Paracetamol'', NaN, Str ''Ibuprofen'', NaN],
              [Str '' MIGRAINE'', Str ''Aspirin'', NaN, NaN, NaN]]\<rparr>"

text \<open>Two tables whose key column has rows but no text.\<close>

definition null_key_remedies :: dataframe where
  "null_key_remedies =
     \<lparr>columns = [''DISEASE NAME'', ''HOMEREMEDY1''],
      rows = [[NaN, Str ''Rest''], [NaN, Str ''Ginger tea'']]\<rparr>"

definition null_key_otc :: dataframe where
  "null_key_otc =
     \<lparr>columns = [''Diseases'', ''OTC1''], rows = [[NaN, Str ''Aspirin'']]\<rparr>"

text \<open>A classifier that knows two texts, a geolocation collaborator that knows two places
  (one of them at latitude 0 and longitude 0), and the two example tables.\<close>

definition example_env :: env where
  "example_env =
     \<lparr>predict = (\<lambda>s. if s = ''headache'' then Text ''Migraine''
                     else if s = ''fever'' then Text ''Fever'' else Number 0),
      label_truth = (\<lambda>l. case l of Text s \<Rightarrow> s \<noteq> [] | Number n \<Rightarrow> n \<noteq> 0),
      get_geolocation = (\<lambda>location. if location = ''New York'' then (PyFloat 40.7128, PyFloat (- 74.006))
                     else if location = ''Null Island'' then (PyFloat 0, PyFloat 0)
                     else (PyNone, PyNone)),
      remedies_df = example_remedies,
      otc_df = example_otc\<rparr>"

text \<open>The same, with an OTC table whose key column has rows but no text.\<close>

definition null_otc_env :: env where
  "null_otc_env = example_env\<lparr>otc_df := null_key_otc\<rparr>"

section \<open>Properties of the lookups\<close>

lemma zip_filter_snd: "map fst (filter snd (zip xs (map h xs))) = filter h xs"
  by (induction xs) simp_all

lemma column_index_nonempty: "column_index name cs = Some k \<Longrightarrow> cs \<noteq> []"
  by (cases cs) simp_all

lemma find_filter: "List.find P xs = Some r \<Longrightarrow> \<exists>ys. filter P xs = r # ys"
  by (induction xs) (auto split: if_splits)

lemma cell_eq_case:
  "cell_eq (str_strip (str_lower c)) t = (case c of NaN \<Rightarrow> False | Str s \<Rightarrow> strip (lower s) = t)"
  by (cases c) simp_all

lemma matching_rows:
  assumes "column_index key (columns df) = Some k"
  shows "getitem df key = Inr (map (\<lambda>r. cell_at r k) (rows df))"
    and "rows (select_rows df (map (\<lambda>c. cell_eq (str_strip (str_lower c)) t)
                 (map (\<lambda>r. cell_at r k) (rows df)))) =
         filter (\<lambda>r. case cell_at r k of NaN \<Rightarrow> False | Str s \<Rightarrow> strip (lower s) = t) (rows df)"
    and "columns (select_rows df m) = columns df"
    and "columns df \<noteq> []"
proof -
  show "getitem df key = Inr (map (\<lambda>r. cell_at r k) (rows df))"
    using assms by (simp add: getitem_def)
  have "map (\<lambda>c. cell_eq (str_strip (str_lower c)) t) (map (\<lambda>r. cell_at r k) (rows df)) =
        map (\<lambda>r. case cell_at r k of NaN \<Rightarrow> False | Str s \<Rightarrow> strip (lower s) = t) (rows df)"
    by (simp add: cell_eq_case)
  then show "rows (select_rows df (map (\<lambda>c. cell_eq (str_strip (str_lower c)) t)
                 (map (\<lambda>r. cell_at r k) (rows df)))) =
         filter (\<lambda>r. case cell_at r k of NaN \<Rightarrow> False | Str s \<Rightarrow> strip (lower s) = t) (rows df)"
    by (simp only: select_rows_def zip_filter_snd) simp
  show "columns (select_rows df m) = columns df"
    by (simp add: select_rows_def)
  show "columns df \<noteq> []"
    using assms by (rule column_index_nonempty)
qed

lemma find_member: "List.find P xs = Some r \<Longrightarrow> r \<in> set xs \<and> P r"
  by (induction xs) (auto split: if_splits)

lemma str_accessor_text: "Str s \<in> set series \<Longrightarrow> str_accessor series = Inr series"
  by (auto simp: str_accessor_def list_all_iff)

lemma str_accessor_some:
  "series = [] \<or> (\<exists>c\<in>set series. c \<noteq> NaN) \<Longrightarrow> str_accessor series = Inr series"
  by (auto simp: str_accessor_def list_all_iff)

lemma str_accessor_null:
  "series \<noteq> [] \<Longrightarrow> \<forall>c\<in>set series. c = NaN \<Longrightarrow> str_accessor series = Inl AttributeError"
  by (simp add: str_accessor_def list_all_iff)

lemma key_text:
  assumes "List.find (\<lambda>r. case cell_at r k of NaN \<Rightarrow> False
                         | Str s \<Rightarrow> strip (lower s) = t) xs = Some r"
  shows "str_accessor (map (\<lambda>r. cell_at r k) xs) = Inr (map (\<lambda>r. cell_at r k) xs)"
proof -
  from find_member [OF assms] obtain s where "r \<in> set xs" "cell_at r k = Str s"
    by (auto split: cell.splits)
  then have "Str s \<in> set (map (\<lambda>r. cell_at r k) xs)" by force
  then show ?thesis by (rule str_accessor_text)
qed

lemma remedies_hit:
  assumes "column_index ''DISEASE NAME'' (columns df) = Some k"
    and "List.find (\<lambda>r. case cell_at r k of NaN \<Rightarrow> False
                         | Str s \<Rightarrow> strip (lower s) = strip (lower disease)) (rows df) = Some r"
  shows "get_remedies_for_disease disease df =
         Inr (dropna (map (cell_at r) [1..<min 7 (length (columns df))]))"
proof -
  from find_filter [OF assms(2)] obtain ys where
    "filter (\<lambda>r. case cell_at r k of NaN \<Rightarrow> False
                 | Str s \<Rightarrow> strip (lower s) = strip (lower disease)) (rows df) = r # ys" ..
  then show ?thesis
    by (simp add: get_remedies_for_disease_def matching_rows [OF assms(1)] df_empty_def
          key_text [OF assms(2)] iloc0_def Let_def del: map_map)
qed

lemma otc_hit:
  assumes "column_index ''Diseases'' (columns df) = Some k"
    and "List.find (\<lambda>r. case cell_at r k of NaN \<Rightarrow> False
                         | Str s \<Rightarrow> strip (lower s) = strip (lower disease)) (rows df) = Some r"
  shows "get_otc_for_disease disease df =
         Inr (dropna (map (cell_at r) [1..<min 5 (length (columns df))]))"
proof -
  from find_filter [OF assms(2)] obtain ys where
    "filter (\<lambda>r. case cell_at r k of NaN \<Rightarrow> False
                 | Str s \<Rightarrow> strip (lower s) = strip (lower disease)) (rows df) = r # ys" ..
  then show ?thesis
    by (simp add: get_otc_for_disease_def matching_rows [OF assms(1)] df_empty_def
          key_text [OF assms(2)] iloc0_def Let_def del: map_map)
qed

lemma no_match_filter:
  assumes "\<forall>r\<in>set xs. case cell_at r k of NaN \<Rightarrow> True | Str s \<Rightarrow> strip (lower s) \<noteq> t"
  shows "filter (\<lambda>r. case cell_at r k of NaN \<Rightarrow> False | Str s \<Rightarrow> strip (lower s) = t) xs = []"
  using assms by (induction xs) (auto split: cell.splits)

lemma key_some:
  assumes "xs = [] \<or> (\<exists>r\<in>set xs. cell_at r k \<noteq> NaN)"
  shows "str_accessor (map (\<lambda>r. cell_at r k) xs) = Inr (map (\<lambda>r. cell_at r k) xs)"
  using assms by (intro str_accessor_some) auto

lemma key_null:
  assumes "xs \<noteq> []" and "\<forall>r\<in>set xs. cell_at r k = NaN"
  shows "str_accessor (map (\<lambda>r. cell_at r k) xs) = Inl AttributeError"
  using assms by (intro str_accessor_null) auto

lemma remedies_miss:
  assumes "column_index ''DISEASE NAME'' (columns df) = Some k"
    and "rows df = [] \<or> (\<exists>r\<in>set (rows df). cell_at r k \<noteq> NaN)"
    and "\<forall>r\<in>set (rows df). case cell_at r k of NaN \<Rightarrow> True
                               | Str s \<Rightarrow> strip (lower s) \<noteq> strip (lower disease)"
  shows "get_remedies_for_disease disease df = Inr []"
  by (simp add: get_remedies_for_disease_def matching_rows [OF assms(1)] df_empty_def
          key_some [OF assms(2)] no_match_filter [OF assms(3)] Let_def del: map_map)

lemma otc_miss:
  assumes "column_index ''Diseases'' (columns df) = Some k"
    and "rows df = [] \<or> (\<exists>r\<in>set (rows df). cell_at r k \<noteq> NaN)"
    and "\<forall>r\<in>set (rows df). case cell_at r k of NaN \<Rightarrow> True
                               | Str s \<Rightarrow> strip (lower s) \<noteq> strip (lower disease)"
  shows "get_otc_for_disease disease df = Inr []"
  by (simp add: get_otc_for_disease_def matching_rows [OF assms(1)] df_empty_def
          key_some [OF assms(2)] no_match_filter [OF assms(3)] Let_def del: map_map)

lemma remedies_null_key:
  assumes "column_index ''DISEASE NAME'' (columns df) = Some k"
    and "rows df \<noteq> []" and "\<forall>r\<in>set (rows df). cell_at r k = NaN"
  shows "get_remedies_for_disease disease df = Inl AttributeError"
  by (simp add: get_remedies_for_disease_def matching_rows(1) [OF assms(1)]
        key_null [OF assms(2,3)] del: map_map)

lemma otc_null_key:
  assumes "column_index ''Diseases'' (columns df) = Some k"
    and "rows df \<noteq> []" and "\<forall>r\<in>set (rows df). cell_at r k = NaN"
  shows "get_otc_for_disease disease df = Inl AttributeError"
  by (simp add: get_otc_for_disease_def matching_rows(1) [OF assms(1)]
        key_null [OF assms(2,3)] del: map_map)

lemma lookups_no_key:
  "column_index ''DISEASE NAME'' (columns df) = None \<Longrightarrow>
     get_remedies_for_disease disease df = Inl (KeyError ''DISEASE NAME'')"
  "column_index ''Diseases'' (columns df) = None \<Longrightarrow>
     get_otc_for_disease disease df = Inl (KeyError ''Diseases'')"
  by (simp_all add: get_remedies_for_disease_def get_otc_for_disease_def getitem_def)

lemma dropna_slots:
  "length (dropna (map (cell_at r) [1..<min (Suc n) m])) \<le> n"
  "NaN \<notin> set (dropna cs)"
  "set (dropna (map (cell_at r) [lo..<hi])) \<subseteq> set r"
proof -
  have "length (dropna (map (cell_at r) [1..<min (Suc n) m])) \<le> length [1..<min (Suc n) m]"
    unfolding dropna_def by (metis length_filter_le length_map)
  then show "length (dropna (map (cell_at r) [1..<min (Suc n) m])) \<le> n" by simp
  show "NaN \<notin> set (dropna cs)" by (simp add: dropna_def)
  show "set (dropna (map (cell_at r) [lo..<hi])) \<subseteq> set r"
    by (auto simp: dropna_def cell_at_def split: if_splits)
qed


lemma isspace_lower_char: "isspace (lower_char c) = isspace c"
  by (auto simp: isspace_def lower_char_def Let_def)

lemma lower_dropWhile: "lower (dropWhile isspace s) = dropWhile isspace (lower s)"
  by (induction s) (simp_all add: lower_def isspace_lower_char)

lemma lower_strip: "lower (strip s) = strip (lower s)"
proof -
  have "rev (lower t) = lower (rev t)" for t
    by (simp add: lower_def rev_map)
  then show ?thesis
    unfolding strip_def using lower_dropWhile by metis
qed

text \<open>
  C1. Both lookups are insensitive to case and to leading and trailing whitespace of the
  disease name: two names that are equal after lowercasing and stripping (in either order)
  give the same result, on every table.
\<close>

theorem lookups_ignore_case_and_outer_whitespace:
  assumes "strip (lower d1) = strip (lower d2) \<or> lower (strip d1) = lower (strip d2)"
  shows "get_remedies_for_disease d1 remedies = get_remedies_for_disease d2 remedies \<and>
         get_otc_for_disease d1 otc = get_otc_for_disease d2 otc"
proof -
  from assms have e: "strip (lower d1) = strip (lower d2)"
    by (simp add: lower_strip)
  show ?thesis
    unfolding get_remedies_for_disease_def get_otc_for_disease_def e by simp
qed

theorem lookups_ignore_case_and_outer_whitespace_witness:
  "strip (lower ''Fever'') = strip (lower '' fever '') \<and>
   get_remedies_for_disease ''Fever'' example_remedies =
     get_remedies_for_disease '' fever '' example_remedies \<and>
   get_otc_for_disease ''Fever'' example_otc = get_otc_for_disease '' fever '' example_otc \<and>
   get_remedies_for_disease '' fever '' example_remedies = Inr [Str ''Drink fluids'', Str ''Rest'']"
proof -
  have h: "strip (lower ''Fever'') = strip (lower '' fever '')"
    by code_simp
  have v: "get_remedies_for_disease '' fever '' example_remedies =
           Inr [Str ''Drink fluids'', Str ''Rest'']"
    by code_simp
  from h have "strip (lower ''Fever'') = strip (lower '' fever '') \<or>
      lower (strip ''Fever'') = lower (strip '' fever '')" ..
  from lookups_ignore_case_and_outer_whitespace [OF this, of example_remedies example_otc] h v
  show ?thesis by simp
qed

text \<open>
  C2. When the disease matches a row of the remedies table, \<open>get_remedies_for_disease\<close>
  returns the cells of the first matching row in the columns at positions 1 to 6, in that
  order, with the nulls dropped: at most 6 values, none of them null, and none of them the
  empty string when the row holds no empty string (\<open>read_csv\<close> reads an empty field as
  null). \<open>get_otc_for_disease\<close> does the same on the OTC table with positions 1 to 4.
\<close>

theorem lookups_return_row_values:
  "(column_index ''DISEASE NAME'' (columns remedies) = Some k \<and>
    List.find (\<lambda>r. case cell_at r k of NaN \<Rightarrow> False
                    | Str s \<Rightarrow> strip (lower s) = strip (lower disease)) (rows remedies) = Some r
    \<longrightarrow> (\<exists>found. get_remedies_for_disease disease remedies = Inr found \<and>
           found = filter (\<lambda>c. c \<noteq> NaN) (map (cell_at r) [1..<min 7 (length (columns remedies))]) \<and>
           length found \<le> 6 \<and> NaN \<notin> set found \<and>
           (Str [] \<notin> set r \<longrightarrow> (\<forall>c\<in>set found. \<exists>s. c = Str s \<and> s \<noteq> [])))) \<and>
   (column_index ''Diseases'' (columns otc) = Some j \<and>
    List.find (\<lambda>r. case cell_at r j of NaN \<Rightarrow> False
                    | Str s \<Rightarrow> strip (lower s) = strip (lower disease)) (rows otc) = Some q
    \<longrightarrow> (\<exists>found. get_otc_for_disease disease otc = Inr found \<and>
           found = filter (\<lambda>c. c \<noteq> NaN) (map (cell_at q) [1..<min 5 (length (columns otc))]) \<and>
           length found \<le> 4 \<and> NaN \<notin> set found \<and>
           (Str [] \<notin> set q \<longrightarrow> (\<forall>c\<in>set found. \<exists>s. c = Str s \<and> s \<noteq> []))))"
proof -
  have strs: "Str [] \<notin> set row \<Longrightarrow> \<forall>c\<in>set (dropna (map (cell_at row) [lo..<hi])). \<exists>s. c = Str s \<and> s \<noteq> []"
    for row lo hi
  proof
    fix c
    assume a: "Str [] \<notin> set row" and c: "c \<in> set (dropna (map (cell_at row) [lo..<hi]))"
    from c have "c \<noteq> NaN" using dropna_slots(2) by blast
    moreover from c have "c \<in> set row" using dropna_slots(3) by blast
    ultimately show "\<exists>s. c = Str s \<and> s \<noteq> []" using a by (cases c) auto
  qed
  have six: "length (dropna (map (cell_at r) [1..<min 7 m])) \<le> 6" for r m
    using dropna_slots(1) [of r 6 m] by simp
  have four: "length (dropna (map (cell_at r) [1..<min 5 m])) \<le> 4" for r m
    using dropna_slots(1) [of r 4 m] by simp
  show ?thesis
  proof (intro conjI impI)
    assume "column_index ''DISEASE NAME'' (columns remedies) = Some k \<and>
      List.find (\<lambda>r. case cell_at r k of NaN \<Rightarrow> False
                    | Str s \<Rightarrow> strip (lower s) = strip (lower disease)) (rows remedies) = Some r"
    then have "get_remedies_for_disease disease remedies =
               Inr (dropna (map (cell_at r) [1..<min 7 (length (columns remedies))]))"
      by (simp add: remedies_hit)
    then show "\<exists>found. get_remedies_for_disease disease remedies = Inr found \<and>
           found = filter (\<lambda>c. c \<noteq> NaN) (map (cell_at r) [1..<min 7 (length (columns remedies))]) \<and>
           length found \<le> 6 \<and> NaN \<notin> set found \<and>
           (Str [] \<notin> set r \<longrightarrow> (\<forall>c\<in>set found. \<exists>s. c = Str s \<and> s \<noteq> []))"
      using six strs dropna_slots(2) by (simp add: dropna_def [symmetric])
  next
    assume "column_index ''Diseases'' (columns otc) = Some j \<and>
      List.find (\<lambda>r. case cell_at r j of NaN \<Rightarrow> False
                    | Str s \<Rightarrow> strip (lower s) = strip (lower disease)) (rows otc) = Some q"
    then have "get_otc_for_disease disease otc =
               Inr (dropna (map (cell_at q) [1..<min 5 (length (columns otc))]))"
      by (simp add: otc_hit)
    then show "\<exists>found. get_otc_for_disease disease otc = Inr found \<and>
           found = filter (\<lambda>c. c \<noteq> NaN) (map (cell_at q) [1..<min 5 (length (columns otc))]) \<and>
           length found \<le> 4 \<and> NaN \<notin> set found \<and>
           (Str [] \<notin> set q \<longrightarrow> (\<forall>c\<in>set found. \<exists>s. c = Str s \<and> s \<noteq> []))"
      using four strs dropna_slots(2) by (simp add: dropna_def [symmetric])
  qed
qed


theorem lookups_return_row_values_witness:
  "column_index ''DISEASE NAME'' (columns example_remedies) = Some 0 \<and>
   List.find (\<lambda>r. case cell_at r 0 of NaN \<Rightarrow> False
                   | Str s \<Rightarrow> strip (lower s) = strip (lower ''Migraine''))
     (rows example_remedies) =
     Some [Str ''Migraine'', Str ''Ginger tea'', NaN, Str ''Cold compress'', Str ''Dark room'',
           NaN, NaN] \<and>
   get_remedies_for_disease ''Migraine'' example_remedies =
     Inr [Str ''Ginger tea'', Str ''Cold compress'', Str ''Dark room''] \<and>
   column_index ''Diseases'' (columns example_otc) = Some 0 \<and>
   List.find (\<lambda>r. case cell_at r 0 of NaN \<Rightarrow> False
                   | Str s \<Rightarrow> strip (lower s) = strip (lower ''Migraine''))
     (rows example_otc) = Some [Str '' MIGRAINE'', Str ''Aspirin'', NaN, NaN, NaN] \<and>
   get_otc_for_disease ''Migraine'' example_otc = Inr [Str ''Aspirin'']"
proof -
  let ?r = "[Str ''Migraine'', Str ''Ginger tea'', NaN, Str ''Cold compress'', Str ''Dark room'',
             NaN, NaN]"
  let ?q = "[Str '' MIGRAINE'', Str ''Aspirin'', NaN, NaN, NaN]"
  have a: "column_index ''DISEASE NAME'' (columns example_remedies) = Some 0"
    by code_simp
  have b: "List.find (\<lambda>r. case cell_at r 0 of NaN \<Rightarrow> False
                   | Str s \<Rightarrow> strip (lower s) = strip (lower ''Migraine''))
     (rows example_remedies) = Some ?r"
    by code_simp
  have c: "column_index ''Diseases'' (columns example_otc) = Some 0"
    by code_simp
  have d: "List.find (\<lambda>r. case cell_at r 0 of NaN \<Rightarrow> False
                   | Str s \<Rightarrow> strip (lower s) = strip (lower ''Migraine''))
     (rows example_otc) = Some ?q"
    by code_simp
  have e: "filter (\<lambda>c. c \<noteq> NaN) (map (cell_at ?r) [1..<min 7 (length (columns example_remedies))])
           = [Str ''Ginger tea'', Str ''Cold compress'', Str ''Dark room'']"
    by code_simp
  have f: "filter (\<lambda>c. c \<noteq> NaN) (map (cell_at ?q) [1..<min 5 (length (columns example_otc))])
           = [Str ''Aspirin'']"
    by code_simp
  from lookups_return_row_values
         [of example_remedies 0 "''Migraine''" ?r example_otc 0 ?q] a b c d e f
  show ?thesis by simp
qed

text \<open>
  C3. On a table that has its key column, with text in at least one row of it or with no
  rows at all, a disease name that matches no row after lowercasing and stripping gets the
  empty list from each lookup, and nothing is raised. On a table whose key column has rows
  but no text the lookup raises \<open>AttributeError\<close>, and on a table without the key column it
  raises \<open>KeyError\<close>, whatever the disease name.
\<close>

theorem lookups_miss_on_text_keys:
  "(column_index ''DISEASE NAME'' (columns remedies) = Some k \<and>
    (rows remedies = [] \<or> (\<exists>r\<in>set (rows remedies). cell_at r k \<noteq> NaN)) \<and>
    (\<forall>r\<in>set (rows remedies). case cell_at r k of NaN \<Rightarrow> True
        | Str s \<Rightarrow> strip (lower s) \<noteq> strip (lower disease))
    \<longrightarrow> get_remedies_for_disease disease remedies = Inr []) \<and>
   (column_index ''DISEASE NAME'' (columns remedies) = Some k \<and> rows remedies \<noteq> [] \<and>
    (\<forall>r\<in>set (rows remedies). cell_at r k = NaN)
    \<longrightarrow> get_remedies_for_disease disease remedies = Inl AttributeError) \<and>
   (column_index ''DISEASE NAME'' (columns remedies) = None
    \<longrightarrow> get_remedies_for_disease disease remedies = Inl (KeyError ''DISEASE NAME'')) \<and>
   (column_index ''Diseases'' (columns otc) = Some j \<and>
    (rows otc = [] \<or> (\<exists>r\<in>set (rows otc). cell_at r j \<noteq> NaN)) \<and>
    (\<forall>r\<in>set (rows otc). case cell_at r j of NaN \<Rightarrow> True
        | Str s \<Rightarrow> strip (lower s) \<noteq> strip (lower disease))
    \<longrightarrow> get_otc_for_disease disease otc = Inr []) \<and>
   (column_index ''Diseases'' (columns otc) = Some j \<and> rows otc \<noteq> [] \<and>
    (\<forall>r\<in>set (rows otc). cell_at r j = NaN)
    \<longrightarrow> get_otc_for_disease disease otc = Inl AttributeError) \<and>
   (column_index ''Diseases'' (columns otc) = None
    \<longrightarrow> get_otc_for_disease disease otc = Inl (KeyError ''Diseases''))"
  using remedies_miss otc_miss remedies_null_key otc_null_key lookups_no_key by blast

theorem lookups_miss_on_text_keys_witness:
  "column_index ''DISEASE NAME'' (columns example_remedies) = Some 0 \<and>
   list_ex (\<lambda>r. cell_at r 0 \<noteq> NaN) (rows example_remedies) \<and>
   list_all (\<lambda>r. case cell_at r 0 of NaN \<Rightarrow> True
                | Str s \<Rightarrow> strip (lower s) \<noteq> strip (lower ''Measles''))
     (rows example_remedies) \<and>
   get_remedies_for_disease ''Measles'' example_remedies = Inr [] \<and>
   column_index ''DISEASE NAME'' (columns null_key_remedies) = Some 0 \<and>
   rows null_key_remedies \<noteq> [] \<and>
   list_all (\<lambda>r. cell_at r 0 = NaN) (rows null_key_remedies) \<and>
   get_remedies_for_disease ''Measles'' null_key_remedies = Inl AttributeError \<and>
   column_index ''DISEASE NAME'' (columns example_otc) = None \<and>
   get_remedies_for_disease ''Measles'' example_otc = Inl (KeyError ''DISEASE NAME'') \<and>
   column_index ''Diseases'' (columns example_otc) = Some 0 \<and>
   list_ex (\<lambda>r. cell_at r 0 \<noteq> NaN) (rows example_otc) \<and>
   list_all (\<lambda>r. case cell_at r 0 of NaN \<Rightarrow> True
                | Str s \<Rightarrow> strip (lower s) \<noteq> strip (lower ''Measles''))
     (rows example_otc) \<and>
   get_otc_for_disease ''Measles'' example_otc = Inr [] \<and>
   column_index ''Diseases'' (columns null_key_otc) = Some 0 \<and>
   rows null_key_otc \<noteq> [] \<and>
   list_all (\<lambda>r. cell_at r 0 = NaN) (rows null_key_otc) \<and>
   get_otc_for_disease ''Measles'' null_key_otc = Inl AttributeError \<and>
   column_index ''Diseases'' (columns example_remedies) = None \<and>
   get_otc_for_disease ''Measles'' example_remedies = Inl (KeyError ''Diseases'')"
proof -
  have a: "column_index ''DISEASE NAME'' (columns example_remedies) = Some 0"
    "column_index ''DISEASE NAME'' (columns null_key_remedies) = Some 0"
    "column_index ''DISEASE NAME'' (columns example_otc) = None"
    "column_index ''Diseases'' (columns example_otc) = Some 0"
    "column_index ''Diseases'' (columns null_key_otc) = Some 0"
    "column_index ''Diseases'' (columns example_remedies) = None"
    by code_simp+
  have b: "list_ex (\<lambda>r. cell_at r 0 \<noteq> NaN) (rows example_remedies)"
    "list_ex (\<lambda>r. cell_at r 0 \<noteq> NaN) (rows example_otc)"
    "list_all (\<lambda>r. cell_at r 0 = NaN) (rows null_key_remedies)"
    "list_all (\<lambda>r. cell_at r 0 = NaN) (rows null_key_otc)"
    "rows null_key_remedies \<noteq> []" "rows null_key_otc \<noteq> []"
    by (simp_all add: example_remedies_def example_otc_def null_key_remedies_def
          null_key_otc_def cell_at_def)
  have c: "list_all (\<lambda>r. case cell_at r 0 of NaN \<Rightarrow> True
                | Str s \<Rightarrow> strip (lower s) \<noteq> strip (lower ''Measles''))
     (rows example_remedies)"
    "list_all (\<lambda>r. case cell_at r 0 of NaN \<Rightarrow> True
                | Str s \<Rightarrow> strip (lower s) \<noteq> strip (lower ''Measles''))
     (rows example_otc)"
    by code_simp+
  from lookups_miss_on_text_keys [of example_remedies 0 "''Measles''" example_otc 0]
       lookups_miss_on_text_keys [of null_key_remedies 0 "''Measles''" null_key_otc 0]
       lookups_miss_on_text_keys [of example_otc 0 "''Measles''" example_remedies 0]
       a b c
  show ?thesis by (simp add: list_all_iff list_ex_iff)
qed

text \<open>Without the condition on the key column the statement fails: on a table whose key
  column has rows but no text no row matches, and the lookup raises.\<close>

theorem lookups_miss_raises_counterexample:
  "getitem null_key_remedies ''DISEASE NAME'' = Inr [NaN, NaN] \<and>
   get_remedies_for_disease ''fever'' null_key_remedies = Inl AttributeError \<and>
   get_remedies_for_disease ''fever'' null_key_remedies \<noteq> Inr [] \<and>
   getitem null_key_otc ''Diseases'' = Inr [NaN] \<and>
   get_otc_for_disease ''fever'' null_key_otc = Inl AttributeError \<and>
   get_otc_for_disease ''fever'' null_key_otc \<noteq> Inr []"
proof -
  have "getitem null_key_remedies ''DISEASE NAME'' = Inr [NaN, NaN]"
    "get_remedies_for_disease ''fever'' null_key_remedies = Inl AttributeError"
    "getitem null_key_otc ''Diseases'' = Inr [NaN]"
    "get_otc_for_disease ''fever'' null_key_otc = Inl AttributeError"
    by code_simp+
  then show ?thesis by simp
qed

section \<open>Properties of the conversation\<close>

lemma safe_input_eof: "stdin c = [] \<Longrightarrow> safe_input p d c = (d, emit (Prompt p) c)"
  by (simp add: safe_input_def)

lemma safe_input_line:
  "stdin c = l # ls \<Longrightarrow> safe_input p d c = (strip l, (emit (Prompt p) c)\<lparr>stdin := ls\<rparr>)"
  by (simp add: safe_input_def)

lemma safe_input_trace: "trace (snd (safe_input p d c)) = trace c @ [Prompt p]"
  by (simp add: safe_input_def emit_def split: list.splits)

lemma safe_input_stdin: "stdin (snd (safe_input p d c)) = tl (stdin c)"
  by (simp add: safe_input_def emit_def split: list.splits)

lemma emit_simps [simp]:
  "trace (emit e c) = trace c @ [e]" "stdin (emit e c) = stdin c"
  "trace (py_print s c) = trace c @ [Print s]" "stdin (py_print s c) = stdin c"
  by (simp_all add: emit_def py_print_def)

lemma print_items_simps [simp]:
  "trace (print_items items c) = trace c @ item_lines items"
  "stdin (print_items items c) = stdin c"
  by (induction items arbitrary: c) (simp_all add: item_lines_def)

lemma digit_chars: "ch \<in> set ''0123456789'' \<Longrightarrow> isdigit ch"
  by (auto simp: isdigit_def)

lemma await_location_trace:
  "trace (await_location env c) =
     trace c @ [Prompt location_prompt, Geolocation (fst (safe_input location_prompt ''New York'' c)),
       (case get_geolocation env (fst (safe_input location_prompt ''New York'' c)) of
          (lat, lng) \<Rightarrow> if truthy lat \<and> truthy lng then Nearby_services lat lng else Print apology)]"
proof -
  obtain loc c1 where s: "safe_input location_prompt ''New York'' c = (loc, c1)"
    by (cases "safe_input location_prompt ''New York'' c")
  then have t: "trace c1 = trace c @ [Prompt location_prompt]"
    using safe_input_trace [of location_prompt "''New York''" c] by simp
  obtain lat lng where g: "get_geolocation env loc = (lat, lng)"
    by (cases "get_geolocation env loc")
  show ?thesis
    by (simp add: await_location_def s g t Let_def)
qed

lemma step_digits:
  assumes "stdin c = l # ls" and "fullmatch_digits (strip l)"
  shows "await_symptom_step env c =
         Again (c\<lparr>stdin := ls, trace := trace c @ [Prompt symptom_prompt,
            Print ''Invalid input! Please enter valid symptoms (not numbers).'']\<rparr>)"
  using assms by (simp add: await_symptom_step_def safe_input_line emit_def py_print_def)

lemma step_trace:
  "\<exists>evs. trace (step_console (await_symptom_step env c)) = trace c @ Prompt symptom_prompt # evs \<and>
         list_all (\<lambda>e. \<not> is_location_event e) evs"
  using safe_input_trace [of symptom_prompt "''fever''" c]
  by (auto simp: await_symptom_step_def Let_def split: prod.splits)


lemma step_cases:
  "(\<exists>c'. await_symptom_step env c = Again c') \<or> (\<exists>d c'. await_symptom_step env c = Break d c')"
  by (cases "await_symptom_step env c") auto

lemma step_break_nonempty: "await_symptom_step env c = Break d c' \<Longrightarrow> d \<noteq> []"
  by (auto simp: await_symptom_step_def Let_def split: prod.splits if_splits)

lemma await_symptom_result:
  assumes "await_symptom env c = Some y"
  shows "fst y \<noteq> [] \<and>
    (\<exists>evs. trace (snd y) = trace c @ evs \<and> list_all (\<lambda>e. \<not> is_location_event e) evs)"
proof (induct rule: await_symptom.raw_induct)
  case (1 loop env c y)
  from step_trace [of env c] obtain evs where
    evs: "trace (step_console (await_symptom_step env c)) = trace c @ Prompt symptom_prompt # evs"
      "list_all (\<lambda>e. \<not> is_location_event e) evs" by blast
  show ?case
  proof (cases "await_symptom_step env c")
    case (Again c2)
    with 1(2) have run: "loop env c2 = Some y" by simp
    from 1(1) [OF run] obtain evs2 where
      "fst y \<noteq> []" "trace (snd y) = trace c2 @ evs2"
      "list_all (\<lambda>e. \<not> is_location_event e) evs2" by blast
    with evs Again show ?thesis by simp
  next
    case (Break d2 c2)
    with 1(2) have "y = (d2, c2)" by simp
    with evs Break step_break_nonempty [OF Break] show ?thesis by simp
  qed
qed (rule assms)


lemma loop_again:
  "await_symptom_step env c = Again c' \<Longrightarrow> await_symptom env c = await_symptom env c'"
  by (simp add: await_symptom.simps [of env c])

lemma loop_break:
  "await_symptom_step env c = Break d c' \<Longrightarrow> await_symptom env c = Some (d, c')"
  by (simp add: await_symptom.simps [of env c])

lemma item_lines_quiet: "list_all (\<lambda>e. \<not> is_location_event e) (item_lines items)"
  by (simp add: item_lines_def list_all_iff)

lemma otc_returns:
  assumes "column_index ''Diseases'' (columns df) = Some j"
    and "rows df = [] \<or> (\<exists>r\<in>set (rows df). cell_at r j \<noteq> NaN)"
  shows "\<exists>meds. get_otc_for_disease d df = Inr meds"
  by (simp add: get_otc_for_disease_def matching_rows(1) [OF assms(1)] key_some [OF assms(2)]
        df_empty_def iloc0_def Let_def split: list.splits del: map_map)

lemma print_items_console:
  "print_items items c = c\<lparr>trace := trace c @ item_lines items\<rparr>"
  by (induction items arbitrary: c) (simp_all add: item_lines_def py_print_def emit_def)

lemma await_otc_choice_shape:
  assumes "await_otc_choice env d c = Inr c'"
  shows "\<exists>c0 pre. c' = await_location env c0 \<and> trace c0 = trace c @ pre \<and>
           list_all (\<lambda>e. \<not> is_location_event e) pre"
proof -
  obtain ans c1 where s: "safe_input otc_prompt ''no'' c = (ans, c1)"
    by (cases "safe_input otc_prompt ''no'' c")
  then have t: "trace c1 = trace c @ [Prompt otc_prompt]"
    using safe_input_trace [of otc_prompt "''no''" c] by simp
  have fin: "?thesis"
    if "c' = await_location env c0" "trace c0 = trace c @ pre"
      "list_all (\<lambda>e. \<not> is_location_event e) pre" for c0 pre
    using that by blast
  consider (yes) "lower ans = ''yes''" | (no) "lower ans = ''no''"
    | (other) "lower ans \<noteq> ''yes''" "lower ans \<noteq> ''no''" by blast
  then show ?thesis
  proof cases
    case yes
    with assms s obtain meds where m: "get_otc_for_disease d (otc_df env) = Inr meds"
      by (auto simp: await_otc_choice_def split: sum.splits)
    show ?thesis
    proof (cases "meds = []")
      case True
      with assms s yes m
      have "c' = await_location env (py_print ''No OTC medicines found.'' (emit (Otc_lookup d) c1))"
        by (simp add: await_otc_choice_def)
      moreover have "trace (py_print ''No OTC medicines found.'' (emit (Otc_lookup d) c1)) =
           trace c @ [Prompt otc_prompt, Otc_lookup d, Print ''No OTC medicines found.'']"
        by (simp add: t)
      ultimately show ?thesis by (rule fin) simp
    next
      case False
      with assms s yes m
      have "c' = await_location env (print_items meds
              (py_print ''Here are some OTC medicines you can try:'' (emit (Otc_lookup d) c1)))"
        by (simp add: await_otc_choice_def)
      moreover have "trace (print_items meds
              (py_print ''Here are some OTC medicines you can try:'' (emit (Otc_lookup d) c1))) =
           trace c @ ([Prompt otc_prompt, Otc_lookup d,
              Print ''Here are some OTC medicines you can try:''] @ item_lines meds)"
        by (simp add: t)
      moreover have "list_all (\<lambda>e. \<not> is_location_event e) ([Prompt otc_prompt, Otc_lookup d,
              Print ''Here are some OTC medicines you can try:''] @ item_lines meds)"
        using item_lines_quiet by simp
      ultimately show ?thesis by (rule fin)
    qed
  next
    case no
    with assms s
    have "c' = await_location env (py_print ''No OTC medicines will be displayed.'' c1)"
      by (simp add: await_otc_choice_def)
    moreover have "trace (py_print ''No OTC medicines will be displayed.'' c1) =
           trace c @ [Prompt otc_prompt, Print ''No OTC medicines will be displayed.'']"
      by (simp add: t)
    ultimately show ?thesis by (rule fin) simp
  next
    case other
    with assms s
    have "c' = await_location env (py_print ''Invalid input. Please enter 'yes' or 'no'.'' c1)"
      by (simp add: await_otc_choice_def)
    moreover have "trace (py_print ''Invalid input. Please enter 'yes' or 'no'.'' c1) =
           trace c @ [Prompt otc_prompt, Print ''Invalid input. Please enter 'yes' or 'no'.'']"
      by (simp add: t)
    ultimately show ?thesis by (rule fin) simp
  qed
qed


lemma diagnosed_shape:
  assumes "diagnosed env d c = Inr c'"
  shows "\<exists>c0 pre. c' = await_location env c0 \<and> trace c0 = trace c @ pre \<and>
           list_all (\<lambda>e. \<not> is_location_event e) pre"
proof -
  from assms obtain rems where r: "get_remedies_for_disease d (remedies_df env) = Inr rems"
    by (auto simp: diagnosed_def Let_def split: sum.splits)
  define c2 where "c2 = (if rems \<noteq> []
      then print_items rems (py_print ''Here are some home remedies:''
             (emit (Remedies_lookup d) (py_print (''I think you might have '' @ d @ ''.'') c)))
      else py_print ''No home remedies found for this disease.''
             (emit (Remedies_lookup d) (py_print (''I think you might have '' @ d @ ''.'') c)))"
  from assms r have "await_otc_choice env d c2 = Inr c'"
    by (cases "rems = []") (simp_all add: diagnosed_def Let_def c2_def)
  from await_otc_choice_shape [OF this] obtain c0 pre where
    p: "c' = await_location env c0" "trace c0 = trace c2 @ pre"
       "list_all (\<lambda>e. \<not> is_location_event e) pre" by blast
  have "\<exists>evs. trace c2 = trace c @ evs \<and> list_all (\<lambda>e. \<not> is_location_event e) evs"
    using item_lines_quiet [of rems] by (simp add: c2_def)
  then obtain evs where "trace c2 = trace c @ evs" "list_all (\<lambda>e. \<not> is_location_event e) evs"
    by blast
  with p have "trace c0 = trace c @ (evs @ pre)"
    "list_all (\<lambda>e. \<not> is_location_event e) (evs @ pre)" by simp_all
  with p(1) show ?thesis by blast
qed

lemma run_shape:
  assumes "process_user_input env c = Some (Inr c')"
  shows "\<exists>c0 pre. c' = await_location env c0 \<and> trace c0 = trace c @ pre \<and>
           list_all (\<lambda>e. \<not> is_location_event e) pre"
proof -
  from assms obtain d ds c1 where
    l: "await_symptom env (py_print ''Hello! I am your health assistant.'' c) = Some (d # ds, c1)"
    and g: "diagnosed env d c1 = Inr c'"
    by (auto simp: process_user_input_def split: option.splits list.splits)
  from await_symptom_result [OF l] obtain evs where
    e: "trace c1 = trace c @ Print ''Hello! I am your health assistant.'' # evs"
       "list_all (\<lambda>e. \<not> is_location_event e) evs" by auto
  from diagnosed_shape [OF g] obtain c0 pre where
    p: "c' = await_location env c0" "trace c0 = trace c1 @ pre"
       "list_all (\<lambda>e. \<not> is_location_event e) pre" by blast
  from e p have "trace c0 = trace c @ (Print ''Hello! I am your health assistant.'' # evs @ pre)"
    "list_all (\<lambda>e. \<not> is_location_event e) (Print ''Hello! I am your health assistant.'' # evs @ pre)"
    by simp_all
  with p(1) show ?thesis by blast
qed

lemma run_events:
  assumes "process_user_input env c = Some (Inr c')" and "trace c' = trace c @ evs"
  shows "\<exists>pre loc. list_all (\<lambda>e. \<not> is_location_event e) pre \<and>
           evs = pre @ [Prompt location_prompt, Geolocation loc,
             (case get_geolocation env loc of
                (lat, lng) \<Rightarrow> if truthy lat \<and> truthy lng then Nearby_services lat lng
                              else Print apology)]"
proof -
  from run_shape [OF assms(1)] obtain c0 pre where
    p: "c' = await_location env c0" "trace c0 = trace c @ pre"
       "list_all (\<lambda>e. \<not> is_location_event e) pre" by blast
  from p(1,2) assms(2) await_location_trace [of env c0] have
    "evs = pre @ [Prompt location_prompt,
        Geolocation (fst (safe_input location_prompt ''New York'' c0)),
        (case get_geolocation env (fst (safe_input location_prompt ''New York'' c0)) of
           (lat, lng) \<Rightarrow> if truthy lat \<and> truthy lng then Nearby_services lat lng
                         else Print apology)]"
    by simp
  with p(3) show ?thesis by blast
qed

lemma falsy_run:
  assumes "process_user_input env c = Some (Inr c')" and "trace c' = trace c @ evs"
    and "Geolocation loc \<in> set evs" and "get_geolocation env loc = (lat, lng)"
    and "\<not> (truthy lat \<and> truthy lng)"
  shows "(\<forall>a b. Nearby_services a b \<notin> set evs) \<and> last evs = Print apology"
proof -
  from run_events [OF assms(1,2)] obtain pre l where
    q: "list_all (\<lambda>e. \<not> is_location_event e) pre"
    and e: "evs = pre @ [Prompt location_prompt, Geolocation l,
             (case get_geolocation env l of
                (lat, lng) \<Rightarrow> if truthy lat \<and> truthy lng then Nearby_services lat lng
                              else Print apology)]" by blast
  have quiet: "Geolocation x \<notin> set pre" "Nearby_services a b \<notin> set pre" for x a b
    using q by (auto simp: list_all_iff)
  have "Geolocation loc \<in> {Prompt location_prompt, Geolocation l,
             (case get_geolocation env l of
                (lat, lng) \<Rightarrow> if truthy lat \<and> truthy lng then Nearby_services lat lng
                              else Print apology)}"
    using assms(3) quiet(1) [of loc] unfolding e by auto
  then have "l = loc"
    by (auto split: prod.splits if_splits)
  with e assms(4,5) have "evs = pre @ [Prompt location_prompt, Geolocation loc, Print apology]"
    by auto
  with quiet(2) show ?thesis by auto
qed

lemma digits_fullmatch:
  "s \<noteq> [] \<Longrightarrow> set s \<subseteq> set ''0123456789'' \<Longrightarrow> fullmatch_digits s"
  unfolding fullmatch_digits_def list_all_iff using digit_chars by blast

text \<open>
  C4. A symptom line that, once stripped, consists only of digits is rejected: the pass
  through the loop prints the validation message and goes round again, having recorded no
  classification and no lookup; the loop then continues from the remaining input exactly as
  if started there, and its next action is the symptom prompt again.
\<close>

theorem digits_only_input_rejected:
  assumes "stdin c = l # ls" and "strip l \<noteq> []" and "set (strip l) \<subseteq> set ''0123456789''"
  shows "await_symptom_step env c =
           Again (c\<lparr>stdin := ls, trace := trace c @ [Prompt symptom_prompt,
              Print ''Invalid input! Please enter valid symptoms (not numbers).'']\<rparr>) \<and>
         await_symptom env c =
           await_symptom env (c\<lparr>stdin := ls, trace := trace c @ [Prompt symptom_prompt,
              Print ''Invalid input! Please enter valid symptoms (not numbers).'']\<rparr>) \<and>
         (\<exists>evs. trace (step_console (await_symptom_step env
                    (c\<lparr>stdin := ls, trace := trace c @ [Prompt symptom_prompt,
                       Print ''Invalid input! Please enter valid symptoms (not numbers).'']\<rparr>))) =
                trace c @ [Prompt symptom_prompt,
                  Print ''Invalid input! Please enter valid symptoms (not numbers).'',
                  Prompt symptom_prompt] @ evs)"
proof -
  let ?c = "c\<lparr>stdin := ls, trace := trace c @ [Prompt symptom_prompt,
              Print ''Invalid input! Please enter valid symptoms (not numbers).'']\<rparr>"
  have s: "await_symptom_step env c = Again ?c"
    using assms by (simp add: step_digits digits_fullmatch)
  moreover have "await_symptom env c = await_symptom env ?c"
    using s by (rule loop_again)
  moreover from step_trace [of env ?c] have
    "\<exists>evs. trace (step_console (await_symptom_step env ?c)) =
        trace c @ [Prompt symptom_prompt,
          Print ''Invalid input! Please enter valid symptoms (not numbers).'',
          Prompt symptom_prompt] @ evs"
    by auto
  ultimately show ?thesis by blast
qed

lemma witness_strings:
  "strip ''12345'' = ''12345''" "strip ''headache'' = ''headache''"
  "fullmatch_digits ''headache'' = False" "fullmatch_digits ''fever'' = False"
  "strip ''YES'' = ''YES''" "lower ''YES'' = ''yes''"
  "strip ''no'' = ''no''" "lower ''no'' = ''no''"
  "strip ''maybe'' = ''maybe''" "lower ''maybe'' = ''maybe''"
  "strip ''Atlantis'' = ''Atlantis''" "strip ''Null Island'' = ''Null Island''"
  by code_simp+

lemma witness_lookups:
  "get_remedies_for_disease ''Migraine'' example_remedies =
     Inr [Str ''Ginger tea'', Str ''Cold compress'', Str ''Dark room'']"
  "get_remedies_for_disease ''Fever'' example_remedies = Inr [Str ''Drink fluids'', Str ''Rest'']"
  "get_otc_for_disease ''Migraine'' example_otc = Inr [Str ''Aspirin'']"
  "column_index ''Diseases'' (columns example_otc) = Some 0"
  by code_simp+

theorem digits_only_input_rejected_witness:
  "stdin \<lparr>stdin = [''12345'', ''headache''], trace = []\<rparr> = ''12345'' # [''headache''] \<and>
   strip ''12345'' \<noteq> [] \<and> set (strip ''12345'') \<subseteq> set ''0123456789'' \<and>
   await_symptom_step example_env \<lparr>stdin = [''12345'', ''headache''], trace = []\<rparr> =
     Again \<lparr>stdin = [''headache''], trace = [Prompt symptom_prompt,
        Print ''Invalid input! Please enter valid symptoms (not numbers).'']\<rparr> \<and>
   await_symptom example_env \<lparr>stdin = [''12345'', ''headache''], trace = []\<rparr> =
     Some ([''Migraine''], \<lparr>stdin = [], trace = [Prompt symptom_prompt,
        Print ''Invalid input! Please enter valid symptoms (not numbers).'',
        Prompt symptom_prompt, Predict ''headache'']\<rparr>)"
proof -
  let ?c = "\<lparr>stdin = [''12345'', ''headache''], trace = []\<rparr>"
  have a: "stdin ?c = ''12345'' # [''headache'']" by simp
  have b: "strip ''12345'' \<noteq> []" by (simp add: witness_strings)
  have d: "set (strip ''12345'') \<subseteq> set ''0123456789''" by (simp add: witness_strings)
  have e: "await_symptom example_env \<lparr>stdin = [''headache''], trace = [Prompt symptom_prompt,
        Print ''Invalid input! Please enter valid symptoms (not numbers).'']\<rparr> =
     Some ([''Migraine''], \<lparr>stdin = [], trace = [Prompt symptom_prompt,
        Print ''Invalid input! Please enter valid symptoms (not numbers).'',
        Prompt symptom_prompt, Predict ''headache'']\<rparr>)"
    by (simp add: await_symptom.simps await_symptom_step_def safe_input_def emit_def py_print_def
          example_env_def witness_strings Let_def)
  from digits_only_input_rejected [OF a b d, of example_env] a b d e
  show ?thesis by simp
qed

lemma await_location_last:
  "\<exists>loc e. trace (await_location env c0) = trace c0 @ [Prompt location_prompt, Geolocation loc, e]"
  using await_location_trace [of env c0] by blast

lemma otc_yes:
  assumes "safe_input otc_prompt ''no'' c = (ans, c1)" and "lower ans = ''yes''"
    and "get_otc_for_disease disease (otc_df env) = Inr meds"
  shows "await_otc_choice env disease c =
     Inr (await_location env
       (if meds \<noteq> []
        then print_items meds (py_print ''Here are some OTC medicines you can try:''
               (emit (Otc_lookup disease) c1))
        else py_print ''No OTC medicines found.'' (emit (Otc_lookup disease) c1)))"
  using assms by (simp add: await_otc_choice_def)

lemma otc_no:
  assumes "safe_input otc_prompt ''no'' c = (ans, c1)" and "lower ans = ''no''"
  shows "await_otc_choice env disease c =
     Inr (await_location env (py_print ''No OTC medicines will be displayed.'' c1))"
  using assms by (simp add: await_otc_choice_def)

lemma otc_other:
  assumes "safe_input otc_prompt ''no'' c = (ans, c1)"
    and "lower ans \<noteq> ''yes''" and "lower ans \<noteq> ''no''"
  shows "await_otc_choice env disease c =
     Inr (await_location env (py_print ''Invalid input. Please enter 'yes' or 'no'.'' c1))"
  using assms by (simp add: await_otc_choice_def)

text \<open>
  C5. At the OTC prompt the line that was read, stripped and then lowercased, decides. For
  \<open>yes\<close> the OTC lookup is called: when it returns, its results are printed under a heading,
  or the none-found message when there are none, and the location prompt follows; when it
  raises, the conversation ends with that error and nothing more is printed. The lookup
  returns on every OTC table that has its key column with text in some row of it, or with
  no rows. For \<open>no\<close> no lookup is called and the skip message is printed. For any other
  answer no lookup is called and the invalid-input message is printed. In these two cases,
  as after a lookup that returned, the OTC prompt was issued once, one line of input was
  used, and the next thing that happens is the location prompt.
\<close>

theorem otc_choice_by_stripped_answer:
  "(stdin c = l # ls \<and> lower (strip l) = ''yes'' \<longrightarrow>
      await_otc_choice env disease c =
        (case get_otc_for_disease disease (otc_df env) of
           Inl e \<Rightarrow> Inl e
         | Inr meds \<Rightarrow>
             Inr (await_location env
               (c\<lparr>stdin := ls,
                  trace := trace c @ [Prompt otc_prompt, Otc_lookup disease] @
                    (if meds = [] then [Print ''No OTC medicines found.'']
                     else Print ''Here are some OTC medicines you can try:'' #
                          item_lines meds)\<rparr>)))) \<and>
   (column_index ''Diseases'' (columns (otc_df env)) = Some j \<and>
    (rows (otc_df env) = [] \<or> (\<exists>r\<in>set (rows (otc_df env)). cell_at r j \<noteq> NaN)) \<longrightarrow>
      (\<exists>meds. get_otc_for_disease disease (otc_df env) = Inr meds)) \<and>
   (stdin c = l # ls \<and> lower (strip l) = ''no'' \<longrightarrow>
      await_otc_choice env disease c =
        Inr (await_location env
          (c\<lparr>stdin := ls,
             trace := trace c @ [Prompt otc_prompt,
               Print ''No OTC medicines will be displayed.'']\<rparr>))) \<and>
   (stdin c = l # ls \<and> lower (strip l) \<noteq> ''yes'' \<and> lower (strip l) \<noteq> ''no'' \<longrightarrow>
      await_otc_choice env disease c =
        Inr (await_location env
          (c\<lparr>stdin := ls,
             trace := trace c @ [Prompt otc_prompt,
               Print ''Invalid input. Please enter 'yes' or 'no'.'']\<rparr>))) \<and>
   (\<forall>k. \<exists>loc e. trace (await_location env k) =
             trace k @ [Prompt location_prompt, Geolocation loc, e])"
proof (intro conjI impI allI)
  assume a: "stdin c = l # ls \<and> lower (strip l) = ''yes''"
  then have s: "safe_input otc_prompt ''no'' c = (strip l, (emit (Prompt otc_prompt) c)\<lparr>stdin := ls\<rparr>)"
    by (simp add: safe_input_line)
  show "await_otc_choice env disease c =
        (case get_otc_for_disease disease (otc_df env) of
           Inl e \<Rightarrow> Inl e
         | Inr meds \<Rightarrow>
             Inr (await_location env
               (c\<lparr>stdin := ls,
                  trace := trace c @ [Prompt otc_prompt, Otc_lookup disease] @
                    (if meds = [] then [Print ''No OTC medicines found.'']
                     else Print ''Here are some OTC medicines you can try:'' #
                          item_lines meds)\<rparr>)))"
  proof (cases "get_otc_for_disease disease (otc_df env)")
    case (Inl e)
    with a s show ?thesis by (simp add: await_otc_choice_def)
  next
    case (Inr meds)
    from a have y: "lower (strip l) = ''yes''" by simp
    show ?thesis
      unfolding otc_yes [OF s y Inr] Inr
      by (simp add: print_items_console py_print_def emit_def)
  qed
next
  assume "column_index ''Diseases'' (columns (otc_df env)) = Some j \<and>
    (rows (otc_df env) = [] \<or> (\<exists>r\<in>set (rows (otc_df env)). cell_at r j \<noteq> NaN))"
  then show "\<exists>meds. get_otc_for_disease disease (otc_df env) = Inr meds"
    using otc_returns by blast
next
  assume a: "stdin c = l # ls \<and> lower (strip l) = ''no''"
  then have s: "safe_input otc_prompt ''no'' c = (strip l, (emit (Prompt otc_prompt) c)\<lparr>stdin := ls\<rparr>)"
    by (simp add: safe_input_line)
  from a have n: "lower (strip l) = ''no''" by simp
  show "await_otc_choice env disease c =
        Inr (await_location env
          (c\<lparr>stdin := ls,
             trace := trace c @ [Prompt otc_prompt,
               Print ''No OTC medicines will be displayed.'']\<rparr>))"
    unfolding otc_no [OF s n] by (simp add: py_print_def emit_def)
next
  assume a: "stdin c = l # ls \<and> lower (strip l) \<noteq> ''yes'' \<and> lower (strip l) \<noteq> ''no''"
  then have s: "safe_input otc_prompt ''no'' c = (strip l, (emit (Prompt otc_prompt) c)\<lparr>stdin := ls\<rparr>)"
    by (simp add: safe_input_line)
  from a have n: "lower (strip l) \<noteq> ''yes''" "lower (strip l) \<noteq> ''no''" by simp_all
  show "await_otc_choice env disease c =
        Inr (await_location env
          (c\<lparr>stdin := ls,
             trace := trace c @ [Prompt otc_prompt,
               Print ''Invalid input. Please enter 'yes' or 'no'.'']\<rparr>))"
    unfolding otc_other [OF s n] by (simp add: py_print_def emit_def)
next
  fix k
  show "\<exists>loc e. trace (await_location env k) =
             trace k @ [Prompt location_prompt, Geolocation loc, e]"
    by (rule await_location_last)
qed

lemma padded_answers:
  "lower (strip ''  YES '') = ''yes''" "lower (strip '' No'') = ''no''"
  "lower (strip ''maybe '') = ''maybe''" "lower (strip ''yes'') = ''yes''"
  "strip ''  YES '' = ''YES''" "strip '' No'' = ''No''" "strip ''maybe '' = ''maybe''"
  "lower ''No'' = ''no''" "strip ''yes'' = ''yes''" "lower ''yes'' = ''yes''"
  by code_simp+

lemma null_otc_lookup:
  "get_otc_for_disease ''Migraine'' null_key_otc = Inl AttributeError"
  by code_simp

theorem otc_choice_by_stripped_answer_witness:
  "stdin \<lparr>stdin = [''  YES '', ''Atlantis''], trace = []\<rparr> = ''  YES '' # [''Atlantis''] \<and>
   lower (strip ''  YES '') = ''yes'' \<and>
   get_otc_for_disease ''Migraine'' (otc_df example_env) = Inr [Str ''Aspirin''] \<and>
   await_otc_choice example_env ''Migraine'' \<lparr>stdin = [''  YES '', ''Atlantis''], trace = []\<rparr> =
     Inr \<lparr>stdin = [], trace = [Prompt otc_prompt, Otc_lookup ''Migraine'',
       Print ''Here are some OTC medicines you can try:'', Print ''- Aspirin'',
       Prompt location_prompt, Geolocation ''Atlantis'', Print apology]\<rparr> \<and>
   get_otc_for_disease ''Migraine'' (otc_df null_otc_env) = Inl AttributeError \<and>
   await_otc_choice null_otc_env ''Migraine'' \<lparr>stdin = [''  YES '', ''Atlantis''], trace = []\<rparr> =
     Inl AttributeError \<and>
   column_index ''Diseases'' (columns (otc_df example_env)) = Some 0 \<and>
   list_ex (\<lambda>r. cell_at r 0 \<noteq> NaN) (rows (otc_df example_env)) \<and>
   stdin \<lparr>stdin = ['' No'', ''Atlantis''], trace = []\<rparr> = '' No'' # [''Atlantis''] \<and>
   lower (strip '' No'') = ''no'' \<and>
   await_otc_choice example_env ''Migraine'' \<lparr>stdin = ['' No'', ''Atlantis''], trace = []\<rparr> =
     Inr \<lparr>stdin = [], trace = [Prompt otc_prompt, Print ''No OTC medicines will be displayed.'',
       Prompt location_prompt, Geolocation ''Atlantis'', Print apology]\<rparr> \<and>
   stdin \<lparr>stdin = [''maybe '', ''Atlantis''], trace = []\<rparr> = ''maybe '' # [''Atlantis''] \<and>
   lower (strip ''maybe '') \<noteq> ''yes'' \<and> lower (strip ''maybe '') \<noteq> ''no'' \<and>
   await_otc_choice example_env ''Migraine'' \<lparr>stdin = [''maybe '', ''Atlantis''], trace = []\<rparr> =
     Inr \<lparr>stdin = [], trace = [Prompt otc_prompt,
       Print ''Invalid input. Please enter 'yes' or 'no'.'',
       Prompt location_prompt, Geolocation ''Atlantis'', Print apology]\<rparr>"
proof -
  let ?y = "\<lparr>stdin = [''  YES '', ''Atlantis''], trace = []\<rparr>"
  let ?n = "\<lparr>stdin = ['' No'', ''Atlantis''], trace = []\<rparr>"
  let ?m = "\<lparr>stdin = [''maybe '', ''Atlantis''], trace = []\<rparr>"
  have env: "otc_df example_env = example_otc" "otc_df null_otc_env = null_key_otc"
    by (simp_all add: example_env_def null_otc_env_def)
  have i: "stdin ?y = ''  YES '' # [''Atlantis'']" "stdin ?n = '' No'' # [''Atlantis'']"
    "stdin ?m = ''maybe '' # [''Atlantis'']" by simp_all
  have a: "lower (strip ''  YES '') = ''yes''" "lower (strip '' No'') = ''no''"
    "lower (strip ''maybe '') \<noteq> ''yes''" "lower (strip ''maybe '') \<noteq> ''no''"
    by code_simp+
  have k: "column_index ''Diseases'' (columns (otc_df example_env)) = Some 0"
    "list_ex (\<lambda>r. cell_at r 0 \<noteq> NaN) (rows (otc_df example_env))"
    by (simp_all add: env witness_lookups) (simp add: example_otc_def cell_at_def)
  have g: "get_otc_for_disease ''Migraine'' (otc_df example_env) = Inr [Str ''Aspirin'']"
    "get_otc_for_disease ''Migraine'' (otc_df null_otc_env) = Inl AttributeError"
    by (simp_all add: env witness_lookups null_otc_lookup)
  have loc: "await_location example_env \<lparr>stdin = [''Atlantis''], trace = t\<rparr> =
      \<lparr>stdin = [], trace = t @ [Prompt location_prompt, Geolocation ''Atlantis'', Print apology]\<rparr>"
    for t
    by (simp add: await_location_def safe_input_def emit_def py_print_def example_env_def
          witness_strings Let_def)
  from otc_choice_by_stripped_answer [of ?y "''  YES ''" "[''Atlantis'']" example_env "''Migraine''" 0]
       otc_choice_by_stripped_answer [of ?y "''  YES ''" "[''Atlantis'']" null_otc_env "''Migraine''" 0]
       otc_choice_by_stripped_answer [of ?n "'' No''" "[''Atlantis'']" example_env "''Migraine''" 0]
       otc_choice_by_stripped_answer [of ?m "''maybe ''" "[''Atlantis'']" example_env "''Migraine''" 0]
       i a k g loc
  show ?thesis by (simp add: item_lines_def)
qed

text \<open>That \<open>yes\<close> always prints the results or the none-found message and goes on to the
  location prompt fails when the OTC table's key column has rows but no text: the answer
  is \<open>yes\<close>, the lookup raises, and the conversation ends there.\<close>

theorem otc_yes_lookup_raises_counterexample:
  "lower (strip ''yes'') = ''yes'' \<and>
   await_otc_choice null_otc_env ''Migraine'' \<lparr>stdin = [''yes'', ''Atlantis''], trace = []\<rparr> =
     Inl AttributeError"
  by (simp add: await_otc_choice_def safe_input_def emit_def null_otc_env_def padded_answers
        null_otc_lookup)

text \<open>
  C6. When the geolocation collaborator returns \<open>(None, None)\<close>, the nearby-services
  collaborator is not called: the last part of the conversation consists of the location
  prompt, the geolocation call and the apology, and in every completed run of
  \<open>process_user_input\<close> whose geolocation call returned \<open>(None, None)\<close> no nearby-services
  call was made and the apology was the last thing done.
\<close>

theorem no_coordinates_no_nearby_services:
  "(get_geolocation env (fst (safe_input location_prompt ''New York'' c0)) = (PyNone, PyNone) \<longrightarrow>
      trace (await_location env c0) =
        trace c0 @ [Prompt location_prompt,
          Geolocation (fst (safe_input location_prompt ''New York'' c0)), Print apology]) \<and>
   (process_user_input env c = Some (Inr c') \<and> trace c' = trace c @ evs \<and>
    Geolocation loc \<in> set evs \<and> get_geolocation env loc = (PyNone, PyNone) \<longrightarrow>
      (\<forall>lat lng. Nearby_services lat lng \<notin> set evs) \<and> last evs = Print apology)"
proof (intro conjI impI)
  assume "get_geolocation env (fst (safe_input location_prompt ''New York'' c0)) = (PyNone, PyNone)"
  then show "trace (await_location env c0) =
        trace c0 @ [Prompt location_prompt,
          Geolocation (fst (safe_input location_prompt ''New York'' c0)), Print apology]"
    by (simp add: await_location_trace)
next
  assume h: "process_user_input env c = Some (Inr c') \<and> trace c' = trace c @ evs \<and>
    Geolocation loc \<in> set evs \<and> get_geolocation env loc = (PyNone, PyNone)"
  then have "(\<forall>a b. Nearby_services a b \<notin> set evs) \<and> last evs = Print apology"
    using falsy_run [of env c c' evs loc PyNone PyNone] by simp
  then show "\<forall>lat lng. Nearby_services lat lng \<notin> set evs" "last evs = Print apology"
    by simp_all
qed

text \<open>
  C8. The guard before the nearby-services call tests the truth value of both coordinates:
  \<open>None\<close>, \<open>0\<close> and \<open>0.0\<close> are all false, and whenever either coordinate returned by the
  geolocation collaborator is false, the nearby-services collaborator is not called and the
  apology is printed instead, in the last part of the conversation and in every completed
  run of \<open>process_user_input\<close>.
\<close>

theorem falsy_coordinate_no_nearby_services:
  "\<not> truthy PyNone \<and> \<not> truthy (PyInt 0) \<and> \<not> truthy (PyFloat 0) \<and>
   (get_geolocation env (fst (safe_input location_prompt ''New York'' c0)) = (lat, lng) \<and>
    (\<not> truthy lat \<or> \<not> truthy lng) \<longrightarrow>
      trace (await_location env c0) =
        trace c0 @ [Prompt location_prompt,
          Geolocation (fst (safe_input location_prompt ''New York'' c0)), Print apology]) \<and>
   (process_user_input env c = Some (Inr c') \<and> trace c' = trace c @ evs \<and>
    Geolocation loc \<in> set evs \<and> get_geolocation env loc = (lat', lng') \<and>
    (\<not> truthy lat' \<or> \<not> truthy lng') \<longrightarrow>
      (\<forall>a b. Nearby_services a b \<notin> set evs) \<and> last evs = Print apology)"
proof (intro conjI impI)
  show "\<not> truthy PyNone" "\<not> truthy (PyInt 0)" "\<not> truthy (PyFloat 0)" by simp_all
next
  assume "get_geolocation env (fst (safe_input location_prompt ''New York'' c0)) = (lat, lng) \<and>
    (\<not> truthy lat \<or> \<not> truthy lng)"
  then show "trace (await_location env c0) =
        trace c0 @ [Prompt location_prompt,
          Geolocation (fst (safe_input location_prompt ''New York'' c0)), Print apology]"
    by (auto simp: await_location_trace)
next
  assume h: "process_user_input env c = Some (Inr c') \<and> trace c' = trace c @ evs \<and>
    Geolocation loc \<in> set evs \<and> get_geolocation env loc = (lat', lng') \<and>
    (\<not> truthy lat' \<or> \<not> truthy lng')"
  then have "(\<forall>a b. Nearby_services a b \<notin> set evs) \<and> last evs = Print apology"
    using falsy_run [of env c c' evs loc lat' lng'] by blast
  then show "\<forall>a b. Nearby_services a b \<notin> set evs" "last evs = Print apology"
    by simp_all
qed

text \<open>
  C7. At end of input \<open>safe_input\<close> returns the default it was given and raises nothing, and
  each prompt of the conversation names its own default: the symptom prompt classifies the
  text \<open>fever\<close>, the OTC prompt behaves as for the answer \<open>no\<close>, and the location prompt asks
  the geolocation collaborator for \<open>New York\<close>.
\<close>

theorem eof_yields_defaults:
  assumes "stdin c = []"
  shows "safe_input prompt dflt c = (dflt, c\<lparr>trace := trace c @ [Prompt prompt]\<rparr>) \<and>
    (\<exists>evs. trace (step_console (await_symptom_step env c)) =
             trace c @ [Prompt symptom_prompt, Predict ''fever''] @ evs) \<and>
    (\<exists>c' e. await_otc_choice env disease c = Inr c' \<and> stdin c' = [] \<and>
        trace c' = trace c @ [Prompt otc_prompt, Print ''No OTC medicines will be displayed.'',
          Prompt location_prompt, Geolocation ''New York'', e]) \<and>
    (\<exists>e. stdin (await_location env c) = [] \<and>
        trace (await_location env c) =
          trace c @ [Prompt location_prompt, Geolocation ''New York'', e])"
proof -
  have in1: "safe_input p d c = (d, emit (Prompt p) c)" for p d
    using assms by (rule safe_input_eof)
  have "safe_input prompt dflt c = (dflt, c\<lparr>trace := trace c @ [Prompt prompt]\<rparr>)"
    by (simp add: in1 emit_def)
  moreover have "\<exists>evs. trace (step_console (await_symptom_step env c)) =
             trace c @ [Prompt symptom_prompt, Predict ''fever''] @ evs"
    by (simp add: await_symptom_step_def in1 fullmatch_digits_def isdigit_def Let_def)
  moreover have loc: "\<exists>e. stdin (await_location env k) = [] \<and> trace (await_location env k) =
          trace k @ [Prompt location_prompt, Geolocation ''New York'', e]"
    if "stdin k = []" for k
    using that by (simp add: await_location_def safe_input_eof Let_def split: prod.splits)
  moreover have "\<exists>c' e. await_otc_choice env disease c = Inr c' \<and> stdin c' = [] \<and>
        trace c' = trace c @ [Prompt otc_prompt, Print ''No OTC medicines will be displayed.'',
          Prompt location_prompt, Geolocation ''New York'', e]"
  proof -
    let ?k = "py_print ''No OTC medicines will be displayed.'' (emit (Prompt otc_prompt) c)"
    have l: "lower ''no'' = ''no''" by (simp add: witness_strings)
    have "await_otc_choice env disease c = Inr (await_location env ?k)"
      using in1 l by (rule otc_no)
    moreover have "stdin ?k = []" using assms by simp
    from loc [OF this] obtain e where "stdin (await_location env ?k) = []"
      "trace (await_location env ?k) = trace ?k @ [Prompt location_prompt, Geolocation ''New York'', e]"
      by blast
    ultimately show ?thesis by simp
  qed
  ultimately show ?thesis using loc [OF assms] by blast
qed

lemma example_runs:
  "process_user_input example_env \<lparr>stdin = [''headache'', ''no'', ''Atlantis''], trace = []\<rparr> =
   Some (Inr \<lparr>stdin = [], trace =
     [Print ''Hello! I am your health assistant.'', Prompt symptom_prompt, Predict ''headache'',
      Print ''I think you might have Migraine.'', Remedies_lookup ''Migraine'',
      Print ''Here are some home remedies:'', Print ''- Ginger tea'', Print ''- Cold compress'',
      Print ''- Dark room'', Prompt otc_prompt, Print ''No OTC medicines will be displayed.'',
      Prompt location_prompt, Geolocation ''Atlantis'', Print apology]\<rparr>)"
  "process_user_input example_env \<lparr>stdin = [''headache'', ''maybe'', ''Null Island''], trace = []\<rparr> =
   Some (Inr \<lparr>stdin = [], trace =
     [Print ''Hello! I am your health assistant.'', Prompt symptom_prompt, Predict ''headache'',
      Print ''I think you might have Migraine.'', Remedies_lookup ''Migraine'',
      Print ''Here are some home remedies:'', Print ''- Ginger tea'', Print ''- Cold compress'',
      Print ''- Dark room'', Prompt otc_prompt,
      Print ''Invalid input. Please enter 'yes' or 'no'.'',
      Prompt location_prompt, Geolocation ''Null Island'', Print apology]\<rparr>)"
  "process_user_input example_env \<lparr>stdin = [], trace = []\<rparr> =
   Some (Inr \<lparr>stdin = [], trace =
     [Print ''Hello! I am your health assistant.'', Prompt symptom_prompt, Predict ''fever'',
      Print ''I think you might have Fever.'', Remedies_lookup ''Fever'',
      Print ''Here are some home remedies:'', Print ''- Drink fluids'', Print ''- Rest'',
      Prompt otc_prompt, Print ''No OTC medicines will be displayed.'',
      Prompt location_prompt, Geolocation ''New York'',
      Nearby_services (PyFloat 40.7128) (PyFloat (- 74.006))]\<rparr>)"
  by (simp_all add: process_user_input_def await_symptom.simps await_symptom_step_def
        safe_input_def diagnosed_def await_otc_choice_def await_location_def emit_def
        py_print_def example_env_def witness_strings witness_lookups Let_def)

theorem no_coordinates_no_nearby_services_witness:
  "get_geolocation example_env
     (fst (safe_input location_prompt ''New York'' \<lparr>stdin = [''Atlantis''], trace = []\<rparr>)) =
     (PyNone, PyNone) \<and>
   trace (await_location example_env \<lparr>stdin = [''Atlantis''], trace = []\<rparr>) =
     [Prompt location_prompt, Geolocation ''Atlantis'', Print apology] \<and>
   process_user_input example_env \<lparr>stdin = [''headache'', ''no'', ''Atlantis''], trace = []\<rparr> =
   Some (Inr \<lparr>stdin = [], trace =
     [Print ''Hello! I am your health assistant.'', Prompt symptom_prompt, Predict ''headache'',
      Print ''I think you might have Migraine.'', Remedies_lookup ''Migraine'',
      Print ''Here are some home remedies:'', Print ''- Ginger tea'', Print ''- Cold compress'',
      Print ''- Dark room'', Prompt otc_prompt, Print ''No OTC medicines will be displayed.'',
      Prompt location_prompt, Geolocation ''Atlantis'', Print apology]\<rparr>) \<and>
   get_geolocation example_env ''Atlantis'' = (PyNone, PyNone) \<and>
   (\<forall>lat lng. Nearby_services lat lng \<notin> set
     [Print ''Hello! I am your health assistant.'', Prompt symptom_prompt, Predict ''headache'',
      Print ''I think you might have Migraine.'', Remedies_lookup ''Migraine'',
      Print ''Here are some home remedies:'', Print ''- Ginger tea'', Print ''- Cold compress'',
      Print ''- Dark room'', Prompt otc_prompt, Print ''No OTC medicines will be displayed.'',
      Prompt location_prompt, Geolocation ''Atlantis'', Print apology])"
proof -
  let ?k = "\<lparr>stdin = [''Atlantis''], trace = []\<rparr>"
  let ?c = "\<lparr>stdin = [''headache'', ''no'', ''Atlantis''], trace = []\<rparr>"
  let ?evs = "[Print ''Hello! I am your health assistant.'', Prompt symptom_prompt,
      Predict ''headache'',
      Print ''I think you might have Migraine.'', Remedies_lookup ''Migraine'',
      Print ''Here are some home remedies:'', Print ''- Ginger tea'', Print ''- Cold compress'',
      Print ''- Dark room'', Prompt otc_prompt, Print ''No OTC medicines will be displayed.'',
      Prompt location_prompt, Geolocation ''Atlantis'', Print apology]"
  have a: "fst (safe_input location_prompt ''New York'' ?k) = ''Atlantis''"
    by (simp add: safe_input_def witness_strings)
  have b: "get_geolocation example_env ''Atlantis'' = (PyNone, PyNone)"
    by (simp add: example_env_def)
  have r: "process_user_input example_env ?c = Some (Inr \<lparr>stdin = [], trace = ?evs\<rparr>)"
    by (rule example_runs(1))
  have t: "trace \<lparr>stdin = [], trace = ?evs\<rparr> = trace ?c @ ?evs" by simp
  have m: "Geolocation ''Atlantis'' \<in> set ?evs" by simp
  from no_coordinates_no_nearby_services
         [of example_env ?k ?c "\<lparr>stdin = [], trace = ?evs\<rparr>" ?evs "''Atlantis''"]
       a b r t m
  show ?thesis by simp
qed

theorem falsy_coordinate_no_nearby_services_witness:
  "get_geolocation example_env
     (fst (safe_input location_prompt ''New York'' \<lparr>stdin = [''Null Island''], trace = []\<rparr>)) =
     (PyFloat 0, PyFloat 0) \<and> \<not> truthy (PyFloat 0) \<and>
   trace (await_location example_env \<lparr>stdin = [''Null Island''], trace = []\<rparr>) =
     [Prompt location_prompt, Geolocation ''Null Island'', Print apology] \<and>
   process_user_input example_env \<lparr>stdin = [''headache'', ''maybe'', ''Null Island''], trace = []\<rparr> =
   Some (Inr \<lparr>stdin = [], trace =
     [Print ''Hello! I am your health assistant.'', Prompt symptom_prompt, Predict ''headache'',
      Print ''I think you might have Migraine.'', Remedies_lookup ''Migraine'',
      Print ''Here are some home remedies:'', Print ''- Ginger tea'', Print ''- Cold compress'',
      Print ''- Dark room'', Prompt otc_prompt,
      Print ''Invalid input. Please enter 'yes' or 'no'.'',
      Prompt location_prompt, Geolocation ''Null Island'', Print apology]\<rparr>) \<and>
   get_geolocation example_env ''Null Island'' = (PyFloat 0, PyFloat 0) \<and>
   (\<forall>a b. Nearby_services a b \<notin> set
     [Print ''Hello! I am your health assistant.'', Prompt symptom_prompt, Predict ''headache'',
      Print ''I think you might have Migraine.'', Remedies_lookup ''Migraine'',
      Print ''Here are some home remedies:'', Print ''- Ginger tea'', Print ''- Cold compress'',
      Print ''- Dark room'', Prompt otc_prompt,
      Print ''Invalid input. Please enter 'yes' or 'no'.'',
      Prompt location_prompt, Geolocation ''Null Island'', Print apology])"
proof -
  let ?k = "\<lparr>stdin = [''Null Island''], trace = []\<rparr>"
  let ?c = "\<lparr>stdin = [''headache'', ''maybe'', ''Null Island''], trace = []\<rparr>"
  let ?evs = "[Print ''Hello! I am your health assistant.'', Prompt symptom_prompt,
      Predict ''headache'',
      Print ''I think you might have Migraine.'', Remedies_lookup ''Migraine'',
      Print ''Here are some home remedies:'', Print ''- Ginger tea'', Print ''- Cold compress'',
      Print ''- Dark room'', Prompt otc_prompt,
      Print ''Invalid input. Please enter 'yes' or 'no'.'',
      Prompt location_prompt, Geolocation ''Null Island'', Print apology]"
  have a: "fst (safe_input location_prompt ''New York'' ?k) = ''Null Island''"
    by (simp add: safe_input_def witness_strings)
  have b: "get_geolocation example_env ''Null Island'' = (PyFloat 0, PyFloat 0)"
    by (simp add: example_env_def)
  have f: "\<not> truthy (PyFloat 0)" by simp
  have r: "process_user_input example_env ?c = Some (Inr \<lparr>stdin = [], trace = ?evs\<rparr>)"
    by (rule example_runs(2))
  have t: "trace \<lparr>stdin = [], trace = ?evs\<rparr> = trace ?c @ ?evs" by simp
  have m: "Geolocation ''Null Island'' \<in> set ?evs" by simp
  from falsy_coordinate_no_nearby_services
         [of example_env ?k "PyFloat 0" "PyFloat 0" ?c "\<lparr>stdin = [], trace = ?evs\<rparr>" ?evs
             "''Null Island''" "PyFloat 0" "PyFloat 0"]
       a b f r t m
  show ?thesis by simp
qed

theorem eof_yields_defaults_witness:
  "stdin \<lparr>stdin = [], trace = []\<rparr> = [] \<and>
   safe_input symptom_prompt ''fever'' \<lparr>stdin = [], trace = []\<rparr> =
     (''fever'', \<lparr>stdin = [], trace = [Prompt symptom_prompt]\<rparr>) \<and>
   safe_input otc_prompt ''no'' \<lparr>stdin = [], trace = []\<rparr> =
     (''no'', \<lparr>stdin = [], trace = [Prompt otc_prompt]\<rparr>) \<and>
   safe_input location_prompt ''New York'' \<lparr>stdin = [], trace = []\<rparr> =
     (''New York'', \<lparr>stdin = [], trace = [Prompt location_prompt]\<rparr>) \<and>
   process_user_input example_env \<lparr>stdin = [], trace = []\<rparr> =
   Some (Inr \<lparr>stdin = [], trace =
     [Print ''Hello! I am your health assistant.'', Prompt symptom_prompt, Predict ''fever'',
      Print ''I think you might have Fever.'', Remedies_lookup ''Fever'',
      Print ''Here are some home remedies:'', Print ''- Drink fluids'', Print ''- Rest'',
      Prompt otc_prompt, Print ''No OTC medicines will be displayed.'',
      Prompt location_prompt, Geolocation ''New York'',
      Nearby_services (PyFloat 40.7128) (PyFloat (- 74.006))]\<rparr>)"
proof -
  let ?c = "\<lparr>stdin = [], trace = []\<rparr>"
  have a: "stdin ?c = []" by simp
  from eof_yields_defaults [OF a, of symptom_prompt "''fever''" example_env "''Fever''"]
       eof_yields_defaults [OF a, of otc_prompt "''no''" example_env "''Fever''"]
       eof_yields_defaults [OF a, of location_prompt "''New York''" example_env "''Fever''"]
       example_runs(3)
  show ?thesis by simp
qed

section \<open>Properties of the liveness responder and of the port\<close>





lemma not_digits [simp]:
  "\<not> isdigit CHR ''_''" "\<not> isdigit CHR ''+''" "\<not> isdigit CHR ''-''"
  by code_simp+

















end
